theory Spec2Isabelle
  imports Main
begin

section \<open>The bindings generator of pkg/bindings/generator/generator.go\<close>

text \<open>
  The program reads the Go file named by GOFILE, parses it, creates the output file,
  walks the syntax tree with \<^verbatim>\<open>ast.Inspect\<close> and, at every type declaration named like
  its first argument, collects the fields, renders \<^verbatim>\<open>bodyTmpl\<close> into the output file,
  closes it and runs \<^verbatim>\<open>go fmt\<close> and \<^verbatim>\<open>goimports\<close> on it.

  Go strings are byte sequences, and so is \<^typ>\<open>string\<close>. The Unicode tables behind
  \<^verbatim>\<open>strings.ToLower\<close>, \<^verbatim>\<open>unicode.ToLower\<close> and \<^verbatim>\<open>strings.TrimSpace\<close> are not part of the
  model: the three functions are modelled on ASCII text, where they work byte by byte.
\<close>

subsection \<open>The functions of package strings and unicode/utf8 that the program calls\<close>

text \<open>\<^verbatim>\<open>unicode.ToLower\<close> on a rune below 128.\<close>

definition lower_byte :: "char \<Rightarrow> char" where
  "lower_byte c =
     (if 65 \<le> (of_char c :: nat) \<and> (of_char c :: nat) \<le> 90
      then char_of ((of_char c :: nat) + 32) else c)"

definition ToLower :: "string \<Rightarrow> string" where
  "ToLower s = map lower_byte s"

text \<open>\<^verbatim>\<open>strings.TrimRight(s, cutset)\<close>: every trailing byte that occurs in the cutset goes.\<close>

definition TrimRight :: "string \<Rightarrow> string \<Rightarrow> string" where
  "TrimRight s cutset = rev (dropWhile (\<lambda>c. c \<in> set cutset) (rev s))"

definition HasPrefix :: "string \<Rightarrow> string \<Rightarrow> bool" where
  "HasPrefix s p = (take (length p) s = p)"

text \<open>
  \<^verbatim>\<open>strings.Replace(s, old, new, n)\<close> for a non-empty \<^verbatim>\<open>old\<close> and \<^verbatim>\<open>n \<ge> 0\<close>: the first
  \<^verbatim>\<open>n\<close> non-overlapping occurrences of \<^verbatim>\<open>old\<close>, from the left, become \<^verbatim>\<open>new\<close>.
\<close>

fun Replace :: "string \<Rightarrow> string \<Rightarrow> string \<Rightarrow> nat \<Rightarrow> string" where
  "Replace s old new 0 = s"
| "Replace [] old new (Suc n) = []"
| "Replace (c # cs) old new (Suc n) =
     (if HasPrefix (c # cs) old
      then new @ Replace (drop (length old) (c # cs)) old new n
      else c # Replace cs old new (Suc n))"

text \<open>\<^verbatim>\<open>strings.Contains(s, sub)\<close>.\<close>

fun Contains :: "string \<Rightarrow> string \<Rightarrow> bool" where
  "Contains [] sub = (sub = [])"
| "Contains (c # cs) sub = (HasPrefix (c # cs) sub \<or> Contains cs sub)"

text \<open>The white space of \<^verbatim>\<open>strings.TrimSpace\<close> below 128: tab, line feed, vertical tab,
  form feed, carriage return and space.\<close>

definition isSpace :: "char \<Rightarrow> bool" where
  "isSpace c = ((of_char c :: nat) \<in> {9, 10, 11, 12, 13, 32})"

definition TrimSpace :: "string \<Rightarrow> string" where
  "TrimSpace s = rev (dropWhile isSpace (rev (dropWhile isSpace s)))"

text \<open>
  \<^verbatim>\<open>utf8.DecodeRuneInString\<close> returns the first rune and its width: \<^verbatim>\<open>(RuneError, 0)\<close> on
  the empty string, the byte itself and 1 on a byte below 128. A lead byte from 128 on
  is given \<^verbatim>\<open>(RuneError, 1)\<close>, which is what Go returns for an invalid encoding; valid
  multi-byte encodings are outside the model.
\<close>

definition RuneError :: nat where
  "RuneError = 65533"

fun DecodeRuneInString :: "string \<Rightarrow> nat \<times> nat" where
  "DecodeRuneInString [] = (RuneError, 0)"
| "DecodeRuneInString (c # cs) =
     (if (of_char c :: nat) < 128 then (of_char c, 1) else (RuneError, 1))"

subsection \<open>fmtComment\<close>

definition fmtComment :: "string \<Rightarrow> string" where
  "fmtComment comment =
     (let (r, n) = DecodeRuneInString comment;
          comment' = (if r \<noteq> RuneError
                      then [lower_byte (char_of r)] @ drop n comment
                      else comment)
      in TrimSpace comment')"

subsection \<open>The name of the output file\<close>

text \<open>The argument of \<^verbatim>\<open>os.Create\<close> in \<^verbatim>\<open>main\<close>.\<close>

definition outName :: "string \<Rightarrow> string \<Rightarrow> string" where
  "outName srcFile inputStructName =
     TrimRight srcFile ''.go'' @ ''_'' @
     Replace (ToLower inputStructName) ''options'' ''_options'' 1 @ ''.go''"

subsection \<open>The syntax tree\<close>

text \<open>
  The nodes of \<^verbatim>\<open>go/ast\<close> that the program tells apart, each with the nodes that
  \<^verbatim>\<open>ast.Inspect\<close> visits below it; every other kind of node is \<open>OtherNode\<close>. A field of
  a struct type carries what the program reads from it: the names, the type expression,
  \<^verbatim>\<open>field.Type.Pos()\<close>, \<^verbatim>\<open>field.Type.End()\<close> and \<^verbatim>\<open>field.Comment.Text()\<close> (empty when the
  field has no comment).
\<close>

datatype node =
    TypeSpec string node
  | StructType "field list"
  | MapType "node list"
  | ArrayType "node list"
  | StarExpr node
  | OtherNode "node list"
and field =
    Field (Names: "string list") (FieldType: node) (TypePos: int) (TypeEnd: int)
          (CommentText: string)

record File =
  Imports :: "string list"
  Decls :: "node list"

text \<open>The order in which \<^verbatim>\<open>ast.Inspect\<close> hands the nodes to a callback that always
  returns true: depth first, a node before its children.\<close>

primrec preorder :: "node \<Rightarrow> node list" and preorder_field :: "field \<Rightarrow> node list" where
  "preorder (TypeSpec name t) = TypeSpec name t # preorder t"
| "preorder (StructType fs) = StructType fs # concat (map preorder_field fs)"
| "preorder (MapType ns) = MapType ns # concat (map preorder ns)"
| "preorder (ArrayType ns) = ArrayType ns # concat (map preorder ns)"
| "preorder (StarExpr x) = StarExpr x # preorder x"
| "preorder (OtherNode ns) = OtherNode ns # concat (map preorder ns)"
| "preorder_field (Field names t p e c) = preorder t"

definition nodes :: "File \<Rightarrow> node list" where
  "nodes f = concat (map preorder (Decls f))"

subsection \<open>fieldStruct and the body of the loop over the fields\<close>

record fieldStruct =
  Comment :: string
  Composite :: bool
  Name :: string
  StructName :: string
  Type :: string

datatype abort = Panic string | Exit nat

text \<open>\<^verbatim>\<open>b[start:end]\<close> panics unless \<^verbatim>\<open>0 \<le> start \<le> end\<close> and \<^verbatim>\<open>end\<close> is within the slice;
  the positions of a parsed file lie within its bytes.\<close>

definition slice :: "string \<Rightarrow> int \<Rightarrow> int \<Rightarrow> string option" where
  "slice b start end =
     (if 0 \<le> start \<and> start \<le> end \<and> end \<le> int (length b)
      then Some (take (nat end - nat start) (drop (nat start) b))
      else None)"

fun composite_of :: "node \<Rightarrow> bool" where
  "composite_of (MapType ns) = True"
| "composite_of (StructType fs) = True"
| "composite_of (ArrayType ns) = True"
| "composite_of t = False"

definition mkField :: "string \<Rightarrow> string \<Rightarrow> field \<Rightarrow> abort + fieldStruct" where
  "mkField b inputStructName fd =
     (let name = (if length (Names fd) > 0 then hd (Names fd) else [])
      in if length (Names fd) > 0 \<and> length name < 1 then Inl (Panic ''bad name'')
         else
           let composite = composite_of (FieldType fd);
               start = TypePos fd - 1;
               end = TypeEnd fd - 1
           in case slice b start end of
                None \<Rightarrow> Inl (Panic ''slice bounds out of range'')
              | Some t \<Rightarrow>
                  Inr \<lparr>Comment = fmtComment (CommentText fd),
                       Composite = composite,
                       Name = name,
                       StructName = inputStructName,
                       Type = Replace t ''*'' '''' 1\<rparr>)"

text \<open>The loop appends to \<^verbatim>\<open>fieldStructs\<close>, a variable of \<^verbatim>\<open>main\<close> that outlives the
  callback.\<close>

fun fieldLoop :: "string \<Rightarrow> string \<Rightarrow> field list \<Rightarrow> fieldStruct list
    \<Rightarrow> abort + fieldStruct list" where
  "fieldLoop b inputStructName [] acc = Inr acc"
| "fieldLoop b inputStructName (fd # fds) acc =
     (case mkField b inputStructName fd of
        Inl e \<Rightarrow> Inl e
      | Inr d \<Rightarrow> fieldLoop b inputStructName fds (acc @ [d]))"

subsection \<open>text/template, as far as bodyTmpl uses it\<close>

text \<open>
  The data handed to a template, and the actions that occur in \<^verbatim>\<open>bodyTmpl\<close>: text,
  \<^verbatim>\<open>{{.X}}\<close>, the range variable, \<^verbatim>\<open>{{if .X}}..{{else}}..{{end}}\<close>,
  \<^verbatim>\<open>{{if not .X}}..{{end}}\<close> and \<^verbatim>\<open>{{range $v := .X}}..{{end}}\<close>. Executing yields the
  text, or \<open>None\<close> where text/template reports an error.
\<close>

datatype val = VString string | VBool bool | VList "val list" | VStruct "(string \<times> val) list"

datatype tnode =
    TText string
  | TField string
  | TVar
  | TIf string "tnode list" "tnode list"
  | TIfNot string "tnode list"
  | TRange string "tnode list"

fun truth :: "val \<Rightarrow> bool" where
  "truth (VString s) = (s \<noteq> [])"
| "truth (VBool b) = b"
| "truth (VList vs) = (vs \<noteq> [])"
| "truth (VStruct fs) = True"

fun field_of :: "val \<Rightarrow> string \<Rightarrow> val option" where
  "field_of (VStruct fs) x = map_of fs x"
| "field_of v x = None"

fun printv :: "val \<Rightarrow> string option" where
  "printv (VString s) = Some s"
| "printv (VBool b) = Some (if b then ''true'' else ''false'')"
| "printv v = None"

definition joined :: "string option list \<Rightarrow> string option" where
  "joined rs = map_option concat (those rs)"

fun exec :: "tnode \<Rightarrow> val \<Rightarrow> val \<Rightarrow> string option" where
  "exec (TText s) dot var = Some s"
| "exec (TField x) dot var =
     (case field_of dot x of None \<Rightarrow> None | Some v \<Rightarrow> printv v)"
| "exec TVar dot var = printv var"
| "exec (TIf x yes no) dot var =
     (case field_of dot x of
        None \<Rightarrow> None
      | Some v \<Rightarrow> if truth v then joined (map (\<lambda>t. exec t dot var) yes)
                  else joined (map (\<lambda>t. exec t dot var) no))"
| "exec (TIfNot x yes) dot var =
     (case field_of dot x of
        None \<Rightarrow> None
      | Some v \<Rightarrow> if \<not> truth v then joined (map (\<lambda>t. exec t dot var) yes) else Some [])"
| "exec (TRange x body) dot var =
     (case field_of dot x of
        Some (VList vs) \<Rightarrow> joined (map (\<lambda>v. joined (map (\<lambda>t. exec t v v) body)) vs)
      | _ \<Rightarrow> None)"

definition Execute :: "tnode list \<Rightarrow> val \<Rightarrow> string option" where
  "Execute tmpl data = joined (map (\<lambda>t. exec t data data) tmpl)"

subsection \<open>bodyTmpl\<close>

definition tab :: string where
  "tab = [CHR 0x09]"

text \<open>The lines of \<^verbatim>\<open>bodyTmpl\<close> before the range over the fields.\<close>

definition headTmpl :: "tnode list" where
  "headTmpl =
    [TText ''// Code generated by go generate; DO NOT EDIT.\<newline>package '',
     TField ''PackageName'',
     TText ''\<newline>\<newline>import (\<newline>'',
     TRange ''Imports'' [TText tab, TVar, TText ''\<newline>''],
     TText ''\<newline>)\<newline>\<newline>// Changed returns true if named field has been set\<newline>func (o *'',
     TField ''StructName'',
     TText ('') Changed(fieldName string) bool {\<newline>'' @ tab @
            ''return util.Changed(o, fieldName)\<newline>}\<newline>\<newline>'' @
            ''// ToParams formats struct fields to be passed to API service\<newline>func (o *''),
     TField ''StructName'',
     TText ('') ToParams() (url.Values, error) {\<newline>'' @ tab @
            ''return util.ToParams(o)\<newline>}\<newline>\<newline>'')]"

text \<open>What stands between \<^verbatim>\<open>{{range $field := .Fields}}\<close> and its \<^verbatim>\<open>{{end}}\<close>.\<close>

definition fieldTmpl :: "tnode list" where
  "fieldTmpl =
    [TText ''\<newline>// With'', TField ''Name'', TText '' set '',
     TIf ''Comment'' [TField ''Comment'']
                     [TText ''field '', TField ''Name'', TText '' to given value''],
     TText ''\<newline>func(o *'', TField ''StructName'', TText '') With'', TField ''Name'',
     TText ''(value '', TField ''Type'', TText '') *'', TField ''StructName'',
     TText ('' {\<newline>'' @ tab @ ''o.''), TField ''Name'', TText '' = '',
     TIfNot ''Composite'' [TText ''&''],
     TText (''value\<newline>'' @ tab @ ''return o\<newline>}\<newline>\<newline>// Get''),
     TField ''Name'', TText '' returns value of '',
     TIf ''Comment'' [TField ''Comment''] [TText ''field '', TField ''Name''],
     TText ''\<newline>func(o *'', TField ''StructName'', TText '') Get'', TField ''Name'',
     TText ''() '', TField ''Type'',
     TText ('' {\<newline>'' @ tab @ ''if o.''), TField ''Name'',
     TText ('' == nil {\<newline>'' @ tab @ tab @ ''var z ''), TField ''Type'',
     TText (''\<newline>'' @ tab @ tab @ ''return z\<newline>'' @ tab @ ''}\<newline>    return ''),
     TIfNot ''Composite'' [TText ''*''],
     TText ''o.'', TField ''Name'', TText ''\<newline>}\<newline>'']"

definition bodyTmpl :: "tnode list" where
  "bodyTmpl = headTmpl @ [TRange ''Fields'' fieldTmpl, TText ''\<newline>'']"

definition fieldVal :: "fieldStruct \<Rightarrow> val" where
  "fieldVal d =
     VStruct [(''Comment'', VString (Comment d)),
              (''Composite'', VBool (Composite d)),
              (''Name'', VString (Name d)),
              (''StructName'', VString (StructName d)),
              (''Type'', VString (Type d))]"

text \<open>The anonymous struct \<^verbatim>\<open>bodyStruct\<close> of \<^verbatim>\<open>main\<close>.\<close>

definition bodyStruct :: "string \<Rightarrow> string list \<Rightarrow> string \<Rightarrow> fieldStruct list \<Rightarrow> val" where
  "bodyStruct packageName imps structName ds =
     VStruct [(''PackageName'', VString packageName),
              (''Imports'', VList (map VString imps)),
              (''StructName'', VString structName),
              (''Fields'', VList (map fieldVal ds))]"

subsection \<open>The process and its surroundings\<close>

text \<open>
  What the run depends on from outside: the environment variables, \<^verbatim>\<open>os.Args\<close>, the
  parser (\<^verbatim>\<open>parser.ParseFile\<close> as a function of the bytes, \<open>None\<close> for a syntax error),
  whether \<^verbatim>\<open>os.Create\<close> and \<^verbatim>\<open>out.Close\<close> succeed, and the two external tools as
  functions of the content of the file they rewrite (\<open>None\<close> when the tool fails, and
  then the file stays as it is). The file system maps a path to the content of the file.
\<close>

record env =
  GOFILE :: string
  GOPACKAGE :: string
  Args :: "string list"
  ParseFile :: "string \<Rightarrow> File option"
  Create_ok :: "string \<Rightarrow> bool"
  Close_ok :: bool
  gofmt :: "string \<Rightarrow> string option"
  goimports :: "string \<Rightarrow> string option"

text \<open>The variables of \<^verbatim>\<open>main\<close> that the callback changes, whether the descriptor of
  \<^verbatim>\<open>out\<close> has been closed, and the file system.\<close>

record state =
  closed :: bool
  fieldStructs :: "fieldStruct list"
  out_closed :: bool
  files :: "string \<Rightarrow> string option"

definition fixedImports :: "string list" where
  \<open>fixedImports =
     [''"reflect"'', ''"github.com/containers/podman/v4/pkg/bindings/internal/util"'']\<close>

text \<open>The test in the first lines of the callback: \<^verbatim>\<open>refOK && ref.Name.Name == inputStructName\<close>.\<close>

fun matches :: "string \<Rightarrow> node \<Rightarrow> bool" where
  "matches inputStructName (TypeSpec name t) = (name = inputStructName)"
| "matches inputStructName n = False"

text \<open>
  The callback after the loop over the fields: execute the template into \<^verbatim>\<open>out\<close>, close
  it, run \<^verbatim>\<open>go fmt\<close>, run \<^verbatim>\<open>goimports\<close>; each failure prints the error and ends the process
  with status 1. A write to a closed file fails, and the template starts with text, so
  executing into a closed file writes nothing.
\<close>

definition render :: "env \<Rightarrow> string list \<Rightarrow> string \<Rightarrow> string \<Rightarrow> state
    \<Rightarrow> (abort \<times> state) + state" where
  "render E imps inputStructName out st =
     (case (if out_closed st then None
            else Execute bodyTmpl
                   (bodyStruct (GOPACKAGE E) imps inputStructName (fieldStructs st))) of
        None \<Rightarrow> Inl (Exit 1, st)
      | Some text \<Rightarrow>
          let old = (case files st out of None \<Rightarrow> [] | Some c \<Rightarrow> c);
              st1 = st\<lparr>files := (files st)(out \<mapsto> old @ text), out_closed := True\<rparr>
          in if \<not> Close_ok E then Inl (Exit 1, st1)
             else
               let st2 = st1\<lparr>closed := True\<rparr>
               in case gofmt E (old @ text) of
                    None \<Rightarrow> Inl (Exit 1, st2)
                  | Some c1 \<Rightarrow>
                      let st3 = st2\<lparr>files := (files st2)(out \<mapsto> c1)\<rparr>
                      in case goimports E c1 of
                           None \<Rightarrow> Inl (Exit 1, st3)
                         | Some c2 \<Rightarrow> Inr (st3\<lparr>files := (files st3)(out \<mapsto> c2)\<rparr>))"

definition callback :: "env \<Rightarrow> string \<Rightarrow> string \<Rightarrow> string list \<Rightarrow> string \<Rightarrow> node \<Rightarrow> state
    \<Rightarrow> (abort \<times> state) + state" where
  "callback E b inputStructName imps out n st =
     (if \<not> matches inputStructName n then Inr st
      else case n of
             TypeSpec name (StructType fds) \<Rightarrow>
               (case fieldLoop b inputStructName fds (fieldStructs st) of
                  Inl e \<Rightarrow> Inl (e, st)
                | Inr ds \<Rightarrow> render E imps inputStructName out (st\<lparr>fieldStructs := ds\<rparr>))
           | _ \<Rightarrow> Inl (Panic ''interface conversion'', st))"

text \<open>\<^verbatim>\<open>ast.Inspect\<close> with a callback that returns true whenever it returns: the callback
  runs on every node in turn, until a panic or an exit ends the process.\<close>

fun Inspect :: "(node \<Rightarrow> state \<Rightarrow> (abort \<times> state) + state) \<Rightarrow> node list \<Rightarrow> state
    \<Rightarrow> (abort \<times> state) + state" where
  "Inspect f [] st = Inr st"
| "Inspect f (n # ns) st =
     (case f n st of Inl e \<Rightarrow> Inl e | Inr st' \<Rightarrow> Inspect f ns st')"

datatype outcome = Returned | Aborted abort

text \<open>
  \<^verbatim>\<open>main\<close>, from the file system before the run to how the process ends and the file
  system after it. The deferred \<^verbatim>\<open>out.Close()\<close> only releases the descriptor.
\<close>

definition main :: "env \<Rightarrow> (string \<Rightarrow> string option) \<Rightarrow> outcome \<times> (string \<Rightarrow> string option)" where
  "main E fs =
     (let srcFile = GOFILE E
      in if length (Args E) < 2 then (Aborted (Panic ''index out of range''), fs)
         else
           let inputStructName = Args E ! 1
           in case fs srcFile of
                None \<Rightarrow> (Aborted (Panic ''ReadFile''), fs)
              | Some b \<Rightarrow>
                  (case ParseFile E b of
                     None \<Rightarrow> (Aborted (Panic ''ParseFile''), fs)
                   | Some f \<Rightarrow>
                       let imps = fixedImports @ Imports f;
                           out = outName srcFile inputStructName
                       in if \<not> Create_ok E out then (Aborted (Panic ''Create''), fs)
                          else
                            let st0 = \<lparr>closed = False, fieldStructs = [],
                                       out_closed = False, files = fs(out \<mapsto> [])\<rparr>
                            in case Inspect (callback E b inputStructName imps out)
                                      (nodes f) st0 of
                                 Inl (e, st) \<Rightarrow> (Aborted e, files st)
                               | Inr st \<Rightarrow> (Returned, files st)))"

section \<open>What the specification says, and example inputs\<close>

subsection \<open>The output file name as the specification words it\<close>

text \<open>\<^verbatim>\<open>strings.TrimSuffix\<close>: the suffix goes once, when the string ends with it.\<close>

definition TrimSuffix :: "string \<Rightarrow> string \<Rightarrow> string" where
  "TrimSuffix s suf =
     (if length suf \<le> length s \<and> drop (length s - length suf) s = suf
      then take (length s - length suf) s else s)"

text \<open>The source file name with its extension removed, an underscore, the lower-cased
  type name with the first \<^verbatim>\<open>options\<close> rewritten to \<^verbatim>\<open>_options\<close>, and \<^verbatim>\<open>.go\<close>.\<close>

definition spec_outName :: "string \<Rightarrow> string \<Rightarrow> string" where
  "spec_outName srcFile inputStructName =
     TrimSuffix srcFile ''.go'' @ ''_'' @
     Replace (ToLower inputStructName) ''options'' ''_options'' 1 @ ''.go''"

subsection \<open>The comment as the specification words it\<close>



subsection \<open>The generated text, piece by piece\<close>

text \<open>The text before the methods of the fields: the package clause, the import block,
  \<^verbatim>\<open>Changed\<close> and \<^verbatim>\<open>ToParams\<close>.\<close>

definition preamble :: "string \<Rightarrow> string list \<Rightarrow> string \<Rightarrow> string" where
  "preamble packageName imps structName =
     ''// Code generated by go generate; DO NOT EDIT.\<newline>'' @
     ''package '' @ packageName @ ''\<newline>'' @
     ''\<newline>'' @
     ''import (\<newline>'' @
     concat (map (\<lambda>i. tab @ i @ ''\<newline>'') imps) @ ''\<newline>'' @
     '')\<newline>'' @
     ''\<newline>'' @
     ''// Changed returns true if named field has been set\<newline>'' @
     ''func (o *'' @ structName @ '') Changed(fieldName string) bool {\<newline>'' @
     tab @ ''return util.Changed(o, fieldName)\<newline>'' @
     ''}\<newline>'' @
     ''\<newline>'' @
     ''// ToParams formats struct fields to be passed to API service\<newline>'' @
     ''func (o *'' @ structName @ '') ToParams() (url.Values, error) {\<newline>'' @
     tab @ ''return util.ToParams(o)\<newline>'' @
     ''}\<newline>'' @
     ''\<newline>''"

text \<open>The doc line and the declaration of the setter and of the getter of one field.\<close>

definition with_doc :: "fieldStruct \<Rightarrow> string" where
  "with_doc d = ''// With'' @ Name d @ '' set '' @
     (if Comment d \<noteq> [] then Comment d else ''field '' @ Name d @ '' to given value'') @
     ''\<newline>''"

definition with_method :: "fieldStruct \<Rightarrow> string" where
  "with_method d =
     ''func(o *'' @ StructName d @ '') With'' @ Name d @ ''(value '' @ Type d @ '') *'' @
     StructName d @ '' {\<newline>'' @
     tab @ ''o.'' @ Name d @ '' = '' @ (if Composite d then [] else ''&'') @ ''value\<newline>'' @
     tab @ ''return o\<newline>'' @
     ''}\<newline>''"

definition get_doc :: "fieldStruct \<Rightarrow> string" where
  "get_doc d = ''// Get'' @ Name d @ '' returns value of '' @
     (if Comment d \<noteq> [] then Comment d else ''field '' @ Name d) @ ''\<newline>''"

definition get_method :: "fieldStruct \<Rightarrow> string" where
  "get_method d =
     ''func(o *'' @ StructName d @ '') Get'' @ Name d @ ''() '' @ Type d @ '' {\<newline>'' @
     tab @ ''if o.'' @ Name d @ '' == nil {\<newline>'' @
     tab @ tab @ ''var z '' @ Type d @ ''\<newline>'' @
     tab @ tab @ ''return z\<newline>'' @
     tab @ ''}\<newline>'' @
     ''    return '' @ (if Composite d then [] else ''*'') @ ''o.'' @ Name d @ ''\<newline>'' @
     ''}\<newline>''"

definition pair_text :: "fieldStruct \<Rightarrow> string" where
  "pair_text d =
     ''\<newline>'' @ with_doc d @ with_method d @ ''\<newline>'' @ get_doc d @ get_method d"

subsection \<open>Parts of main, named for the proofs\<close>

text \<open>The state in which the traversal starts, right after \<^verbatim>\<open>os.Create\<close>.\<close>

definition start_state :: "(string \<Rightarrow> string option) \<Rightarrow> string \<Rightarrow> state" where
  "start_state fs out =
     \<lparr>closed = False, fieldStructs = [], out_closed = False, files = fs(out \<mapsto> [])\<rparr>"

definition finish :: "(abort \<times> state) + state \<Rightarrow> outcome \<times> (string \<Rightarrow> string option)" where
  "finish r =
     (case r of Inl (e, st) \<Rightarrow> (Aborted e, files st) | Inr st \<Rightarrow> (Returned, files st))"

text \<open>A field on which the loop body does not panic: the first name, if there is one,
  is not empty, and the positions of the type expression lie within the source.\<close>

definition field_ok :: "string \<Rightarrow> field \<Rightarrow> bool" where
  "field_ok b fd \<longleftrightarrow>
     (Names fd = [] \<or> hd (Names fd) \<noteq> []) \<and>
     1 \<le> TypePos fd \<and> TypePos fd \<le> TypeEnd fd \<and> TypeEnd fd \<le> int (length b) + 1"


subsection \<open>Example inputs\<close>

text \<open>A struct with the field \<^verbatim>\<open>A **int\<close>; the type expression starts at offset 33.\<close>

definition src_ptr :: string where
  "src_ptr = ''package p\<newline>\<newline>type Opts struct {\<newline>'' @ tab @ ''A **int\<newline>}\<newline>''"

text \<open>A struct with the embedded field \<^verbatim>\<open>io.Reader\<close>, at offsets 31 to 40.\<close>

definition src_embedded :: string where
  "src_embedded = ''package p\<newline>\<newline>type Opts struct {\<newline>'' @ tab @ ''io.Reader\<newline>}\<newline>''"

text \<open>A struct with \<^verbatim>\<open>A *struct{}\<close> (offsets 33 to 42) and \<^verbatim>\<open>B struct{}\<close> (46 to 54).\<close>

definition src_structs :: string where
  "src_structs = ''package p\<newline>\<newline>type Opts struct {\<newline>'' @ tab @ ''A *struct{}\<newline>'' @
                 tab @ ''B struct{}\<newline>}\<newline>''"

definition field_A :: field where
  "field_A = Field [''A''] (StarExpr (StructType [])) 34 43 []"

definition desc_A :: fieldStruct where
  "desc_A = \<lparr>Comment = [], Composite = False, Name = ''A'', StructName = ''Opts'',
             Type = ''struct{}''\<rparr>"

definition field_B :: field where
  "field_B = Field [''B''] (StructType []) 47 55 []"

definition desc_B :: fieldStruct where
  "desc_B = \<lparr>Comment = [], Composite = True, Name = ''B'', StructName = ''Opts'',
             Type = ''struct{}''\<rparr>"

text \<open>
  \<^verbatim>\<open>types.go\<close> with the struct \<^verbatim>\<open>Opts\<close>: the field \<^verbatim>\<open>Name *string\<close> without a comment
  (type at offsets 36 to 43) and the field \<^verbatim>\<open>Labels map[string]string\<close> with the comment
  \<^verbatim>\<open>// Extra labels\<close> (type at offsets 52 to 69). The parser yields the tree below; the
  tools leave the file as it is.
\<close>

definition src_opts :: string where
  "src_opts = ''package p\<newline>\<newline>type Opts struct {\<newline>'' @ tab @ ''Name *string\<newline>'' @
              tab @ ''Labels map[string]string // Extra labels\<newline>}\<newline>''"

definition field_Name :: field where
  "field_Name = Field [''Name''] (StarExpr (OtherNode [])) 37 44 []"

definition field_Labels :: field where
  "field_Labels =
     Field [''Labels''] (MapType [OtherNode [], OtherNode []]) 53 70 ''Extra labels\<newline>''"

definition fields_opts :: "field list" where
  "fields_opts = [field_Name, field_Labels]"

definition file_opts :: File where
  "file_opts = \<lparr>Imports = [], Decls = [OtherNode [TypeSpec ''Opts'' (StructType fields_opts)]]\<rparr>"

definition env_opts :: env where
  "env_opts =
     \<lparr>GOFILE = ''types.go'', GOPACKAGE = ''p'', Args = [''generator'', ''Opts''],
      ParseFile = (\<lambda>b. Some file_opts), Create_ok = (\<lambda>p. True), Close_ok = True,
      gofmt = Some, goimports = Some\<rparr>"

definition fs_opts :: "string \<Rightarrow> string option" where
  "fs_opts = Map.empty(''types.go'' \<mapsto> src_opts, ''types_opts.go'' \<mapsto> ''// old'',
                       ''types_missing.go'' \<mapsto> ''// old'')"

definition desc_Name :: fieldStruct where
  "desc_Name = \<lparr>Comment = [], Composite = False, Name = ''Name'', StructName = ''Opts'',
                Type = ''string''\<rparr>"

definition desc_Labels :: fieldStruct where
  "desc_Labels = \<lparr>Comment = ''extra labels'', Composite = True, Name = ''Labels'',
                  StructName = ''Opts'', Type = ''map[string]string''\<rparr>"

definition descs_opts :: "fieldStruct list" where
  "descs_opts = [desc_Name, desc_Labels]"

definition text_opts :: string where
  "text_opts = preamble ''p'' fixedImports ''Opts'' @ concat (map pair_text descs_opts) @ ''\<newline>''"

text \<open>The same run asked for a type that the file does not declare.\<close>

definition env_missing :: env where
  "env_missing = env_opts\<lparr>Args := [''generator'', ''Missing'']\<rparr>"


text \<open>A struct declared as \<^verbatim>\<open>A, B int\<close>: one field entry with two names (type at offsets
  36 to 39).\<close>

definition src_two :: string where
  "src_two = ''package p\<newline>\<newline>type Opts struct {\<newline>'' @ tab @ ''A, B int\<newline>}\<newline>''"

definition fields_two :: "field list" where
  "fields_two = [Field [''A'', ''B''] (OtherNode []) 37 40 []]"

definition file_two :: File where
  "file_two = \<lparr>Imports = [], Decls = [OtherNode [TypeSpec ''Opts'' (StructType fields_two)]]\<rparr>"

definition env_two :: env where
  "env_two = env_opts\<lparr>ParseFile := (\<lambda>b. Some file_two)\<rparr>"

definition fs_two :: "string \<Rightarrow> string option" where
  "fs_two = Map.empty(''types.go'' \<mapsto> src_two)"

definition desc_two :: fieldStruct where
  "desc_two = \<lparr>Comment = [], Composite = False, Name = ''A'', StructName = ''Opts'',
               Type = ''int''\<rparr>"

definition text_two :: string where
  "text_two = preamble ''p'' fixedImports ''Opts'' @ concat (map pair_text [desc_two]) @ ''\<newline>''"








section \<open>Properties\<close>

subsection \<open>Library facts\<close>

lemma Replace_star: "Replace t ''*'' '''' (Suc 0) = remove1 (CHR ''*'') t"
  by (induction t) (auto simp: HasPrefix_def)

lemma joined_Nil [simp]: "joined [] = Some []"
  by (simp add: joined_def)

lemma joined_Cons_Some [simp]: "joined (Some x # rs) = map_option ((@) x) (joined rs)"
  by (cases "those rs") (simp_all add: joined_def)

lemma joined_map_Some: "joined (map (\<lambda>x. Some (g x)) xs) = Some (concat (map g xs))"
  by (induction xs) simp_all

lemma joined_append:
  "joined (xs @ ys) =
     (case joined xs of None \<Rightarrow> None | Some a \<Rightarrow> map_option ((@) a) (joined ys))"
proof (induction xs)
  case Nil
  show ?case by (cases "joined ys") simp_all
next
  case (Cons x xs)
  show ?case
  proof (cases x)
    case None
    then show ?thesis by (simp add: joined_def)
  next
    case (Some a)
    then show ?thesis using Cons
      by (cases "joined xs"; cases "joined ys") simp_all
  qed
qed




subsection \<open>Executing the template\<close>

lemma exec_fieldTmpl:
  "joined (map (\<lambda>t. exec t (fieldVal d) (fieldVal d)) fieldTmpl) = Some (pair_text d)"
  by (simp add: fieldTmpl_def fieldVal_def pair_text_def with_doc_def with_method_def
        get_doc_def get_method_def tab_def)

lemma exec_Fields:
  "exec (TRange ''Fields'' fieldTmpl) (bodyStruct p imps n ds) v =
     Some (concat (map pair_text ds))"
  by (simp add: bodyStruct_def exec_fieldTmpl joined_map_Some comp_def)

lemma exec_headTmpl:
  "joined (map (\<lambda>t. exec t (bodyStruct p imps n ds) (bodyStruct p imps n ds)) headTmpl) =
     Some (preamble p imps n)"
  by (simp add: headTmpl_def bodyStruct_def preamble_def tab_def joined_map_Some comp_def)

text \<open>Executing \<^verbatim>\<open>bodyTmpl\<close> on the data of \<^verbatim>\<open>main\<close> never fails.\<close>

lemma Execute_bodyTmpl:
  "Execute bodyTmpl (bodyStruct p imps n ds) =
     Some (preamble p imps n @ concat (map pair_text ds) @ ''\<newline>'')"
  unfolding Execute_def bodyTmpl_def map_append joined_append exec_headTmpl list.map
    exec_Fields
  by simp

subsection \<open>The loop over the fields\<close>

lemma mkField_ok: "field_ok b fd \<Longrightarrow> \<exists>d. mkField b n fd = Inr d"
  by (auto simp: field_ok_def mkField_def slice_def Let_def)

lemma mkField_Name:
  "mkField b n fd = Inr d \<Longrightarrow> Name d = (if Names fd = [] then [] else hd (Names fd))"
  by (auto simp: mkField_def Let_def split: if_splits option.splits)

lemma mkField_Composite: "mkField b n fd = Inr d \<Longrightarrow> Composite d = composite_of (FieldType fd)"
  by (auto simp: mkField_def Let_def split: if_splits option.splits)




lemma fieldLoop_ok:
  "list_all (field_ok b) fds \<Longrightarrow>
   fieldLoop b n fds acc = Inr (acc @ map (\<lambda>fd. projr (mkField b n fd)) fds)"
proof (induction fds arbitrary: acc)
  case Nil
  show ?case by simp
next
  case (Cons fd fds)
  then obtain d where d: "mkField b n fd = Inr d"
    using mkField_ok [of b fd n] by auto
  with Cons show ?case by simp
qed

subsection \<open>The callback and the traversal\<close>

lemma callback_skip: "\<not> matches n x \<Longrightarrow> callback E b n imps out x st = Inr st"
  by (simp add: callback_def)

lemma Inspect_filter:
  "Inspect (callback E b n imps out) ns st =
   Inspect (callback E b n imps out) (filter (matches n) ns) st"
  by (induction ns arbitrary: st) (auto simp: callback_skip split: sum.splits)

lemma callback_struct:
  "callback E b n imps out (TypeSpec n (StructType fds)) st =
     (case fieldLoop b n fds (fieldStructs st) of
        Inl e \<Rightarrow> Inl (e, st)
      | Inr ds \<Rightarrow> render E imps n out (st\<lparr>fieldStructs := ds\<rparr>))"
  by (simp add: callback_def)


lemma render_open:
  assumes "\<not> out_closed st" and "files st out = Some []"
    and "rendered = preamble (GOPACKAGE E) imps n @
                    concat (map pair_text (fieldStructs st)) @ ''\<newline>''"
  shows "render E imps n out st =
     (if \<not> Close_ok E
      then Inl (Exit 1, st\<lparr>files := (files st)(out \<mapsto> rendered), out_closed := True\<rparr>)
      else case gofmt E rendered of
             None \<Rightarrow> Inl (Exit 1, st\<lparr>files := (files st)(out \<mapsto> rendered),
                                     out_closed := True, closed := True\<rparr>)
           | Some c1 \<Rightarrow>
               (case goimports E c1 of
                  None \<Rightarrow> Inl (Exit 1, st\<lparr>files := (files st)(out \<mapsto> c1),
                                          out_closed := True, closed := True\<rparr>)
                | Some c2 \<Rightarrow> Inr (st\<lparr>files := (files st)(out \<mapsto> c2),
                                      out_closed := True, closed := True\<rparr>)))"
  using assms by (simp add: render_def Execute_bodyTmpl Let_def split: option.splits)





lemma callback_one_match:
  assumes "list_all (field_ok b) fds"
    and "ds = map (\<lambda>fd. projr (mkField b name fd)) fds"
    and "rendered = preamble (GOPACKAGE E) imps name @ concat (map pair_text ds) @ ''\<newline>''"
    and "Close_ok E"
  shows "finish (Inspect (callback E b name imps out) [TypeSpec name (StructType fds)]
                   (start_state fs out)) =
     (case gofmt E rendered of
        None \<Rightarrow> (Aborted (Exit 1), fs(out \<mapsto> rendered))
      | Some c1 \<Rightarrow>
          (case goimports E c1 of
             None \<Rightarrow> (Aborted (Exit 1), fs(out \<mapsto> c1))
           | Some c2 \<Rightarrow> (Returned, fs(out \<mapsto> c2))))"
proof -
  let ?st = "(start_state fs out)\<lparr>fieldStructs := ds\<rparr>"
  have loop: "fieldLoop b name fds (fieldStructs (start_state fs out)) = Inr ds"
    using fieldLoop_ok [OF assms(1), of name "[]"] assms(2) by (simp add: start_state_def)
  have r: "render E imps name out ?st =
     (case gofmt E rendered of
        None \<Rightarrow> Inl (Exit 1, ?st\<lparr>files := (files ?st)(out \<mapsto> rendered),
                                 out_closed := True, closed := True\<rparr>)
      | Some c1 \<Rightarrow>
          (case goimports E c1 of
             None \<Rightarrow> Inl (Exit 1, ?st\<lparr>files := (files ?st)(out \<mapsto> c1),
                                      out_closed := True, closed := True\<rparr>)
           | Some c2 \<Rightarrow> Inr (?st\<lparr>files := (files ?st)(out \<mapsto> c2),
                                  out_closed := True, closed := True\<rparr>)))"
    using render_open [of "?st" out rendered E imps name] assms(3,4)
    by (simp add: start_state_def)
  have cb: "callback E b name imps out (TypeSpec name (StructType fds)) (start_state fs out) =
      render E imps name out ?st"
    by (simp add: callback_struct loop)
  show ?thesis
    unfolding Inspect.simps cb r
    by (simp add: finish_def start_state_def split: option.splits)
qed

subsection \<open>Runs of main\<close>

lemma main_past_create:
  assumes "2 \<le> length (Args E)" and "name = Args E ! 1"
    and "fs (GOFILE E) = Some b" and "ParseFile E b = Some f"
    and "out = outName (GOFILE E) name" and "Create_ok E out"
  shows "main E fs =
     finish (Inspect (callback E b name (fixedImports @ Imports f) out)
               (filter (matches name) (nodes f)) (start_state fs out))"
  using assms
  by (simp add: main_def Let_def finish_def start_state_def Inspect_filter [symmetric]
        split: sum.splits prod.splits)

lemma main_no_match:
  assumes "2 \<le> length (Args E)" and "name = Args E ! 1"
    and "fs (GOFILE E) = Some b" and "ParseFile E b = Some f"
    and "out = outName (GOFILE E) name" and "Create_ok E out"
    and "filter (matches name) (nodes f) = []"
  shows "main E fs = (Returned, fs(out \<mapsto> []))"
proof -
  have "main E fs =
     finish (Inspect (callback E b name (fixedImports @ Imports f) out)
               (filter (matches name) (nodes f)) (start_state fs out))"
    using assms(1-6) by (rule main_past_create)
  then show ?thesis
    using assms(7) by (simp add: finish_def start_state_def)
qed

lemma main_one_match:
  assumes "2 \<le> length (Args E)" and "name = Args E ! 1"
    and "fs (GOFILE E) = Some b" and "ParseFile E b = Some f"
    and "out = outName (GOFILE E) name" and "Create_ok E out"
    and "filter (matches name) (nodes f) = [TypeSpec name (StructType fds)]"
    and "list_all (field_ok b) fds"
    and "ds = map (\<lambda>fd. projr (mkField b name fd)) fds"
    and "rendered = preamble (GOPACKAGE E) (fixedImports @ Imports f) name @
                    concat (map pair_text ds) @ ''\<newline>''"
    and "Close_ok E"
  shows "main E fs =
     (case gofmt E rendered of
        None \<Rightarrow> (Aborted (Exit 1), fs(out \<mapsto> rendered))
      | Some c1 \<Rightarrow>
          (case goimports E c1 of
             None \<Rightarrow> (Aborted (Exit 1), fs(out \<mapsto> c1))
           | Some c2 \<Rightarrow> (Returned, fs(out \<mapsto> c2))))"
proof -
  have "main E fs =
     finish (Inspect (callback E b name (fixedImports @ Imports f) out)
               (filter (matches name) (nodes f)) (start_state fs out))"
    using assms(1-6) by (rule main_past_create)
  then show ?thesis
    unfolding assms(7) using assms(8-11) by (simp only: callback_one_match)
qed



subsection \<open>The example inputs, evaluated\<close>

lemma char_of_codes:
  "char_of (111::nat) = CHR ''o''" "char_of (109::nat) = CHR ''m''"
  "char_of (69::nat) = CHR ''E''" "char_of (101::nat) = CHR ''e''"
  by code_simp+

lemma outName_types_opts: "outName ''types.go'' ''Opts'' = ''types_opts.go''"
  by (simp add: outName_def TrimRight_def ToLower_def char_of_codes HasPrefix_def
        lower_byte_def)

lemma outName_types_missing: "outName ''types.go'' ''Missing'' = ''types_missing.go''"
  by (simp add: outName_def TrimRight_def ToLower_def char_of_codes HasPrefix_def
        lower_byte_def)

lemma fmtComment_Extra: "fmtComment ''Extra labels\<newline>'' = ''extra labels''"
  by (simp add: fmtComment_def RuneError_def char_of_codes lower_byte_def TrimSpace_def
        isSpace_def)

lemma fmtComment_Nil: "fmtComment [] = []"
  by (simp add: fmtComment_def TrimSpace_def)

lemma mkField_Name_opts: "mkField src_opts ''Opts'' field_Name = Inr desc_Name"
  by (simp add: field_Name_def desc_Name_def src_opts_def tab_def mkField_def slice_def
        fmtComment_Nil HasPrefix_def)

lemma mkField_Labels: "mkField src_opts ''Opts'' field_Labels = Inr desc_Labels"
  by (simp add: field_Labels_def desc_Labels_def src_opts_def tab_def mkField_def slice_def
        fmtComment_Extra HasPrefix_def)

lemma descs_opts_eq:
  "descs_opts = map (\<lambda>fd. projr (mkField src_opts ''Opts'' fd)) fields_opts"
  by (simp add: descs_opts_def fields_opts_def mkField_Name_opts mkField_Labels)


lemma mkField_two: "mkField src_two ''Opts'' (Field [''A'', ''B''] (OtherNode []) 37 40 []) =
    Inr desc_two"
  by (simp add: desc_two_def src_two_def tab_def mkField_def slice_def fmtComment_Nil
        HasPrefix_def)

lemma fields_two_ok: "list_all (field_ok src_two) fields_two"
  by (simp add: fields_two_def field_ok_def src_two_def tab_def)

lemma nodes_file_two:
  "filter (matches ''Opts'') (nodes file_two) = [TypeSpec ''Opts'' (StructType fields_two)]"
  by (simp add: nodes_def file_two_def fields_two_def)


lemma mkField_A: "mkField src_structs ''Opts'' field_A = Inr desc_A"
  by (simp add: field_A_def desc_A_def src_structs_def tab_def mkField_def slice_def
        fmtComment_Nil HasPrefix_def)

lemma mkField_B: "mkField src_structs ''Opts'' field_B = Inr desc_B"
  by (simp add: field_B_def desc_B_def src_structs_def tab_def mkField_def slice_def
        fmtComment_Nil HasPrefix_def)

lemma nodes_file_opts:
  "filter (matches ''Opts'') (nodes file_opts) = [TypeSpec ''Opts'' (StructType fields_opts)]"
  by (simp add: nodes_def file_opts_def fields_opts_def field_Name_def field_Labels_def)

lemma nodes_file_opts_missing: "filter (matches ''Missing'') (nodes file_opts) = []"
  by (simp add: nodes_def file_opts_def fields_opts_def field_Name_def field_Labels_def)



lemma main_two:
  "main env_two fs_two = (Returned, fs_two(''types_opts.go'' \<mapsto> text_two))"
proof -
  have "main env_two fs_two =
     (case gofmt env_two text_two of
        None \<Rightarrow> (Aborted (Exit 1), fs_two(''types_opts.go'' \<mapsto> text_two))
      | Some c1 \<Rightarrow>
          (case goimports env_two c1 of
             None \<Rightarrow> (Aborted (Exit 1), fs_two(''types_opts.go'' \<mapsto> c1))
           | Some c2 \<Rightarrow> (Returned, fs_two(''types_opts.go'' \<mapsto> c2))))"
  proof (rule main_one_match [where name = "''Opts''" and b = src_two and f = file_two
        and fds = fields_two and ds = "[desc_two]"])
    show "2 \<le> length (Args env_two)" by (simp add: env_two_def env_opts_def)
    show "''Opts'' = Args env_two ! 1" by (simp add: env_two_def env_opts_def)
    show "fs_two (GOFILE env_two) = Some src_two"
      by (simp add: env_two_def env_opts_def fs_two_def)
    show "ParseFile env_two src_two = Some file_two" by (simp add: env_two_def env_opts_def)
    show "''types_opts.go'' = outName (GOFILE env_two) ''Opts''"
      by (simp add: env_two_def env_opts_def outName_types_opts)
    show "Create_ok env_two ''types_opts.go''" by (simp add: env_two_def env_opts_def)
    show "filter (matches ''Opts'') (nodes file_two) =
        [TypeSpec ''Opts'' (StructType fields_two)]" by (rule nodes_file_two)
    show "list_all (field_ok src_two) fields_two" by (rule fields_two_ok)
    show "[desc_two] = map (\<lambda>fd. projr (mkField src_two ''Opts'' fd)) fields_two"
      by (simp add: fields_two_def mkField_two)
    show "text_two = preamble (GOPACKAGE env_two) (fixedImports @ Imports file_two) ''Opts'' @
        concat (map pair_text [desc_two]) @ ''\<newline>''"
      by (simp add: text_two_def env_two_def env_opts_def file_two_def)
    show "Close_ok env_two" by (simp add: env_two_def env_opts_def)
  qed
  then show ?thesis by (simp add: env_two_def env_opts_def)
qed


lemma text_two_no_B: "\<not> Contains text_two ''WithB''" "\<not> Contains text_two ''GetB''"
  by (simp_all add: text_two_def preamble_def fixedImports_def pair_text_def with_doc_def
        with_method_def get_doc_def get_method_def desc_two_def tab_def HasPrefix_def)

section \<open>The claims\<close>

subsection \<open>The output file name\<close>

text \<open>
  C5. The output file name is meant to be the source file name without its extension,
  an underscore, the lower-cased type name with its first \<^verbatim>\<open>options\<close> rewritten, and
  \<^verbatim>\<open>.go\<close>. \<^verbatim>\<open>strings.TrimRight(srcFile, ".go")\<close> removes every trailing \<^verbatim>\<open>.\<close>, \<^verbatim>\<open>g\<close> and \<^verbatim>\<open>o\<close>
  instead of the suffix: for \<^verbatim>\<open>config.go\<close> and \<^verbatim>\<open>Options\<close> the program creates
  \<^verbatim>\<open>confi__options.go\<close>, where the rule gives \<^verbatim>\<open>config__options.go\<close>.
\<close>

theorem C5_outName_config:
  "outName ''config.go'' ''Options'' = ''confi__options.go'' \<and>
   spec_outName ''config.go'' ''Options'' = ''config__options.go''"
  by code_simp

subsection \<open>The fields\<close>

text \<open>
  C6. For a field whose positions lie within the source bytes (and whose first name, if
  it has one, is not empty), the loop body yields a descriptor, and its type text is the
  slice of the source from offset \<^verbatim>\<open>Pos - 1\<close> to offset \<^verbatim>\<open>End - 1\<close> with the first \<^verbatim>\<open>*\<close>
  removed and every later one kept.
\<close>

theorem C6_type_text:
  assumes "Names fd = [] \<or> hd (Names fd) \<noteq> []"
    and "1 \<le> TypePos fd" and "TypePos fd \<le> TypeEnd fd"
    and "TypeEnd fd \<le> int (length b) + 1"
  shows "\<exists>d. mkField b inputStructName fd = Inr d \<and>
             Type d = remove1 (CHR ''*'')
                        (take (nat (TypeEnd fd - 1) - nat (TypePos fd - 1))
                              (drop (nat (TypePos fd - 1)) b))"
  using assms by (auto simp: mkField_def slice_def Let_def Replace_star)

theorem C6_type_text_witness:
  "\<exists>d. mkField src_ptr ''Opts''
         (Field [''A''] (StarExpr (StarExpr (OtherNode []))) 34 39 []) = Inr d
       \<and> Type d = ''*int''"
  using C6_type_text [of "Field [''A''] (StarExpr (StarExpr (OtherNode []))) 34 39 []"
                         src_ptr "''Opts''"]
  by (simp add: src_ptr_def tab_def)

text \<open>
  C7. A field entry without a name token is meant to end the run with the panic
  \<^verbatim>\<open>bad name\<close>. The test for the empty name stands inside \<^verbatim>\<open>if len(field.Names) > 0\<close>, so
  an embedded field passes: for \<^verbatim>\<open>type Opts struct { io.Reader }\<close> the loop body returns
  a descriptor with the empty name.
\<close>

theorem C7_embedded_field_no_panic:
  "mkField src_embedded ''Opts''
     (Field [] (OtherNode [OtherNode [], OtherNode []]) 32 41 []) =
   Inr \<lparr>Comment = [], Composite = False, Name = [], StructName = ''Opts'',
        Type = ''io.Reader''\<rparr>"
  by (simp add: src_embedded_def tab_def mkField_def slice_def fmtComment_def
        TrimSpace_def RuneError_def HasPrefix_def)
text \<open>
  C3, as stated: of two fields with the same struct type, one declared as a pointer to
  the struct and one as the struct itself, both are composite. It fails: the switch of
  the loop body lists map, struct and array types, and in \<^verbatim>\<open>A *struct{}\<close> the type is a
  pointer type, so the field is not composite and its setter assigns \<^verbatim>\<open>&value\<close>.
\<close>

theorem C3_pointer_field_counterexample:
  "mkField src_structs ''Opts'' (Field [''A''] (StarExpr (StructType [])) 34 43 []) =
     Inr desc_A \<and>
   \<not> Composite desc_A \<and>
   Contains (with_method desc_A) ''o.A = &value''"
  using mkField_A
  by (simp add: field_A_def desc_A_def with_method_def tab_def HasPrefix_def)

text \<open>
  C3, amended. A field whose type expression is an inline struct type is composite, and
  the setter rendered for it assigns the value as it is; a field whose type expression
  is a pointer type, to a struct or to anything else, is not composite, and the setter
  rendered for it assigns the address of the value.
\<close>

theorem C3_struct_direct_pointer_wrapped:
  assumes "mkField b n fd = Inr d"
  shows "(\<forall>fds. FieldType fd = StructType fds \<longrightarrow>
            Composite d \<and>
            joined (map (\<lambda>t. exec t (fieldVal d) (fieldVal d)) fieldTmpl) =
              Some (''\<newline>'' @ with_doc d @
                    ''func(o *'' @ StructName d @ '') With'' @ Name d @ ''(value '' @ Type d @
                    '') *'' @ StructName d @ '' {\<newline>'' @
                    tab @ ''o.'' @ Name d @ '' = value\<newline>'' @
                    tab @ ''return o\<newline>'' @
                    ''}\<newline>'' @
                    ''\<newline>'' @ get_doc d @ get_method d)) \<and>
         (\<forall>x. FieldType fd = StarExpr x \<longrightarrow>
            \<not> Composite d \<and>
            joined (map (\<lambda>t. exec t (fieldVal d) (fieldVal d)) fieldTmpl) =
              Some (''\<newline>'' @ with_doc d @
                    ''func(o *'' @ StructName d @ '') With'' @ Name d @ ''(value '' @ Type d @
                    '') *'' @ StructName d @ '' {\<newline>'' @
                    tab @ ''o.'' @ Name d @ '' = &value\<newline>'' @
                    tab @ ''return o\<newline>'' @
                    ''}\<newline>'' @
                    ''\<newline>'' @ get_doc d @ get_method d))"
  using mkField_Composite [OF assms]
  by (auto simp: exec_fieldTmpl pair_text_def with_method_def)

theorem C3_struct_direct_pointer_wrapped_witness:
  "mkField src_structs ''Opts'' field_B = Inr desc_B \<and>
   FieldType field_B = StructType [] \<and>
   Composite desc_B \<and>
   joined (map (\<lambda>t. exec t (fieldVal desc_B) (fieldVal desc_B)) fieldTmpl) =
     Some (''\<newline>'' @ with_doc desc_B @
           ''func(o *Opts) WithB(value struct{}) *Opts {\<newline>'' @
           tab @ ''o.B = value\<newline>'' @
           tab @ ''return o\<newline>'' @
           ''}\<newline>'' @
           ''\<newline>'' @ get_doc desc_B @ get_method desc_B)"
proof -
  have ft: "FieldType field_B = StructType []" by (simp add: field_B_def)
  have "Composite desc_B \<and>
    joined (map (\<lambda>t. exec t (fieldVal desc_B) (fieldVal desc_B)) fieldTmpl) =
      Some (''\<newline>'' @ with_doc desc_B @
            ''func(o *'' @ StructName desc_B @ '') With'' @ Name desc_B @ ''(value '' @
            Type desc_B @ '') *'' @ StructName desc_B @ '' {\<newline>'' @
            tab @ ''o.'' @ Name desc_B @ '' = value\<newline>'' @
            tab @ ''return o\<newline>'' @
            ''}\<newline>'' @
            ''\<newline>'' @ get_doc desc_B @ get_method desc_B)"
    using C3_struct_direct_pointer_wrapped [OF mkField_B] ft by blast
  moreover have "StructName desc_B = ''Opts''" "Name desc_B = ''B''" "Type desc_B = ''struct{}''"
    by (simp_all add: desc_B_def)
  ultimately show ?thesis using mkField_B ft by simp
qed



subsection \<open>The rendered methods\<close>

text \<open>
  C2. For every descriptor the template renders a setter \<^verbatim>\<open>With<Name>\<close> that assigns
  \<^verbatim>\<open>&value\<close> when the field is not composite and \<^verbatim>\<open>value\<close> when it is, and returns
  \<^verbatim>\<open>o\<close>, the pointer to the struct; and a getter \<^verbatim>\<open>Get<Name>\<close> that returns a variable
  \<^verbatim>\<open>z\<close> of the type of the field, left at its zero value, when the field is nil, and
  otherwise \<^verbatim>\<open>*o.<Name>\<close> when the field is not composite and \<^verbatim>\<open>o.<Name>\<close> when it is.
\<close>

theorem C2_setter_getter_text:
  "exec (TRange ''Fields'' fieldTmpl) (bodyStruct p imps n ds) v =
     Some (concat (map (\<lambda>d.
       ''\<newline>'' @ with_doc d @
       ''func(o *'' @ StructName d @ '') With'' @ Name d @ ''(value '' @ Type d @ '') *'' @
       StructName d @ '' {\<newline>'' @
       tab @ ''o.'' @ Name d @ '' = '' @ (if Composite d then [] else ''&'') @ ''value\<newline>'' @
       tab @ ''return o\<newline>'' @
       ''}\<newline>'' @
       ''\<newline>'' @ get_doc d @
       ''func(o *'' @ StructName d @ '') Get'' @ Name d @ ''() '' @ Type d @ '' {\<newline>'' @
       tab @ ''if o.'' @ Name d @ '' == nil {\<newline>'' @
       tab @ tab @ ''var z '' @ Type d @ ''\<newline>'' @
       tab @ tab @ ''return z\<newline>'' @
       tab @ ''}\<newline>'' @
       ''    return '' @ (if Composite d then [] else ''*'') @ ''o.'' @ Name d @ ''\<newline>'' @
       ''}\<newline>'') ds))"
proof -
  have "pair_text = (\<lambda>d.
       ''\<newline>'' @ with_doc d @
       ''func(o *'' @ StructName d @ '') With'' @ Name d @ ''(value '' @ Type d @ '') *'' @
       StructName d @ '' {\<newline>'' @
       tab @ ''o.'' @ Name d @ '' = '' @ (if Composite d then [] else ''&'') @ ''value\<newline>'' @
       tab @ ''return o\<newline>'' @
       ''}\<newline>'' @
       ''\<newline>'' @ get_doc d @
       ''func(o *'' @ StructName d @ '') Get'' @ Name d @ ''() '' @ Type d @ '' {\<newline>'' @
       tab @ ''if o.'' @ Name d @ '' == nil {\<newline>'' @
       tab @ tab @ ''var z '' @ Type d @ ''\<newline>'' @
       tab @ tab @ ''return z\<newline>'' @
       tab @ ''}\<newline>'' @
       ''    return '' @ (if Composite d then [] else ''*'') @ ''o.'' @ Name d @ ''\<newline>'' @
       ''}\<newline>'')"
    by (rule ext) (simp add: pair_text_def with_method_def get_method_def)
  then show ?thesis
    by (simp only: exec_Fields)
qed
subsection \<open>Runs of the whole program\<close>

text \<open>
  C1, as stated: every field name declared in the struct gets one \<^verbatim>\<open>With\<close>/\<^verbatim>\<open>Get\<close> pair. It
  fails on a field entry with several names: for \<^verbatim>\<open>type Opts struct { A, B int }\<close> the run
  succeeds and writes the pair of \<^verbatim>\<open>A\<close> only, since the loop body reads
  \<^verbatim>\<open>field.Names[0]\<close>; the declared name \<^verbatim>\<open>B\<close> occurs in no method.
\<close>

theorem C1_second_name_counterexample:
  "main env_two fs_two = (Returned, fs_two(''types_opts.go'' \<mapsto> text_two)) \<and>
   concat (map Names fields_two) = [''A'', ''B''] \<and>
   text_two = preamble ''p'' fixedImports ''Opts'' @ pair_text desc_two @ ''\<newline>'' \<and>
   Name desc_two = ''A'' \<and>
   \<not> Contains text_two ''WithB'' \<and> \<not> Contains text_two ''GetB''"
  using main_two text_two_no_B
  by (simp add: fields_two_def text_two_def desc_two_def)

text \<open>
  C1, amended. When exactly one declaration matches the type name, it declares a struct
  type with N field entries, every entry has a first name that is not empty and a type
  expression that lies within the source, and \<^verbatim>\<open>os.Create\<close> and \<^verbatim>\<open>out.Close\<close> succeed, then
  the program writes the preamble followed by exactly N blocks, one per field entry and
  in the order of the entries, each holding the \<^verbatim>\<open>With\<close> and the \<^verbatim>\<open>Get\<close> method named after
  the first name of its entry; the two tools then run on this text, and the run returns
  normally when both succeed. Further names of an entry get no methods.
\<close>

theorem C1_pair_per_field_entry:
  assumes "2 \<le> length (Args E)" and "name = Args E ! 1"
    and "fs (GOFILE E) = Some b" and "ParseFile E b = Some f"
    and "out = outName (GOFILE E) name" and "Create_ok E out" and "Close_ok E"
    and "filter (matches name) (nodes f) = [TypeSpec name (StructType fds)]"
    and "\<forall>fd\<in>set fds. Names fd \<noteq> [] \<and> hd (Names fd) \<noteq> [] \<and>
                      1 \<le> TypePos fd \<and> TypePos fd \<le> TypeEnd fd \<and>
                      TypeEnd fd \<le> int (length b) + 1"
    and "ds = map (\<lambda>fd. projr (mkField b name fd)) fds"
    and "rendered = preamble (GOPACKAGE E) (fixedImports @ Imports f) name @
                    concat (map pair_text ds) @ ''\<newline>''"
  shows "main E fs =
           (case gofmt E rendered of
              None \<Rightarrow> (Aborted (Exit 1), fs(out \<mapsto> rendered))
            | Some c1 \<Rightarrow>
                (case goimports E c1 of
                   None \<Rightarrow> (Aborted (Exit 1), fs(out \<mapsto> c1))
                 | Some c2 \<Rightarrow> (Returned, fs(out \<mapsto> c2)))) \<and>
         length ds = length fds \<and>
         map Name ds = map (\<lambda>fd. hd (Names fd)) fds"
proof -
  have ok: "list_all (field_ok b) fds"
    using assms(9) by (simp add: list_all_iff field_ok_def)
  have run: "main E fs =
           (case gofmt E rendered of
              None \<Rightarrow> (Aborted (Exit 1), fs(out \<mapsto> rendered))
            | Some c1 \<Rightarrow>
                (case goimports E c1 of
                   None \<Rightarrow> (Aborted (Exit 1), fs(out \<mapsto> c1))
                 | Some c2 \<Rightarrow> (Returned, fs(out \<mapsto> c2))))"
    using assms(1-6) assms(8) ok assms(10,11) assms(7) by (rule main_one_match)
  have len: "length ds = length fds" by (simp add: assms(10))
  have "Name (projr (mkField b name fd)) = hd (Names fd)" if "fd \<in> set fds" for fd
  proof -
    from that ok have "field_ok b fd" by (simp add: list_all_iff)
    then obtain d where d: "mkField b name fd = Inr d"
      using mkField_ok by blast
    moreover have "Names fd \<noteq> []" using that assms(9) by blast
    ultimately show ?thesis using mkField_Name [OF d] by simp
  qed
  then have names: "map Name ds = map (\<lambda>fd. hd (Names fd)) fds"
    by (simp add: assms(10))
  from run len names show ?thesis by blast
qed

theorem C1_pair_per_field_entry_witness:
  "main env_opts fs_opts = (Returned, fs_opts(''types_opts.go'' \<mapsto> text_opts)) \<and>
   text_opts = preamble ''p'' fixedImports ''Opts'' @
               pair_text desc_Name @ pair_text desc_Labels @ ''\<newline>'' \<and>
   map Name descs_opts = [''Name'', ''Labels'']"
proof -
  have w: "main env_opts fs_opts =
           (case gofmt env_opts text_opts of
              None \<Rightarrow> (Aborted (Exit 1), fs_opts(''types_opts.go'' \<mapsto> text_opts))
            | Some c1 \<Rightarrow>
                (case goimports env_opts c1 of
                   None \<Rightarrow> (Aborted (Exit 1), fs_opts(''types_opts.go'' \<mapsto> c1))
                 | Some c2 \<Rightarrow> (Returned, fs_opts(''types_opts.go'' \<mapsto> c2)))) \<and>
         length descs_opts = length fields_opts \<and>
         map Name descs_opts = map (\<lambda>fd. hd (Names fd)) fields_opts"
  proof (rule C1_pair_per_field_entry [where name = "''Opts''" and b = src_opts
        and f = file_opts])
    show "2 \<le> length (Args env_opts)" by (simp add: env_opts_def)
    show "''Opts'' = Args env_opts ! 1" by (simp add: env_opts_def)
    show "fs_opts (GOFILE env_opts) = Some src_opts" by (simp add: env_opts_def fs_opts_def)
    show "ParseFile env_opts src_opts = Some file_opts" by (simp add: env_opts_def)
    show "''types_opts.go'' = outName (GOFILE env_opts) ''Opts''"
      by (simp add: env_opts_def outName_types_opts)
    show "Create_ok env_opts ''types_opts.go''" by (simp add: env_opts_def)
    show "Close_ok env_opts" by (simp add: env_opts_def)
    show "filter (matches ''Opts'') (nodes file_opts) =
        [TypeSpec ''Opts'' (StructType fields_opts)]" by (rule nodes_file_opts)
    show "\<forall>fd\<in>set fields_opts. Names fd \<noteq> [] \<and> hd (Names fd) \<noteq> [] \<and>
            1 \<le> TypePos fd \<and> TypePos fd \<le> TypeEnd fd \<and>
            TypeEnd fd \<le> int (length src_opts) + 1"
      by (simp add: fields_opts_def field_Name_def field_Labels_def src_opts_def tab_def)
    show "descs_opts = map (\<lambda>fd. projr (mkField src_opts ''Opts'' fd)) fields_opts"
      by (rule descs_opts_eq)
    show "text_opts = preamble (GOPACKAGE env_opts) (fixedImports @ Imports file_opts) ''Opts'' @
        concat (map pair_text descs_opts) @ ''\<newline>''"
      by (simp add: text_opts_def env_opts_def file_opts_def)
  qed
  have "main env_opts fs_opts = (Returned, fs_opts(''types_opts.go'' \<mapsto> text_opts))"
    using w by (simp add: env_opts_def)
  moreover have "map Name descs_opts = [''Name'', ''Labels'']"
    using w by (simp add: fields_opts_def field_Name_def field_Labels_def)
  moreover have "text_opts = preamble ''p'' fixedImports ''Opts'' @
               pair_text desc_Name @ pair_text desc_Labels @ ''\<newline>''"
    by (simp add: text_opts_def descs_opts_def)
  ultimately show ?thesis by blast
qed

text \<open>
  C4, as stated: when no declared type matches the type name, the process fails with a
  non-zero exit. It fails: asked for \<^verbatim>\<open>Missing\<close> in a file that declares \<^verbatim>\<open>Opts\<close> only, the
  run returns normally and the output file, which held text before, is empty.
\<close>

theorem C4_missing_type_counterexample:
  "fst (main env_missing fs_opts) = Returned \<and>
   fs_opts ''types_missing.go'' = Some ''// old'' \<and>
   snd (main env_missing fs_opts) ''types_missing.go'' = Some []"
proof -
  have "main env_missing fs_opts = (Returned, fs_opts(''types_missing.go'' \<mapsto> []))"
    by (rule main_no_match [where name = "''Missing''" and b = src_opts and f = file_opts])
      (simp_all add: env_missing_def env_opts_def fs_opts_def outName_types_missing
        nodes_file_opts_missing)
  then show ?thesis by (simp add: fs_opts_def)
qed

text \<open>
  C4, amended. When the source is read and parsed, \<^verbatim>\<open>os.Create\<close> succeeds and no node of
  the tree is a type declaration with the given name, the callback never gets past its
  first test: the process returns normally (exit status 0), and the output file is left
  as \<^verbatim>\<open>os.Create\<close> made it, empty.
\<close>

theorem C4_no_match_returns_normally:
  assumes "2 \<le> length (Args E)" and "name = Args E ! 1"
    and "fs (GOFILE E) = Some b" and "ParseFile E b = Some f"
    and "out = outName (GOFILE E) name" and "Create_ok E out"
    and "\<forall>x\<in>set (nodes f). \<not> matches name x"
  shows "main E fs = (Returned, fs(out \<mapsto> []))"
proof -
  have "filter (matches name) (nodes f) = []"
    using assms(7) by (simp add: filter_empty_conv)
  with assms(1-6) show ?thesis by (rule main_no_match)
qed

theorem C4_no_match_returns_normally_witness:
  "filter (matches ''Missing'') (nodes file_opts) = [] \<and>
   main env_missing fs_opts = (Returned, fs_opts(''types_missing.go'' \<mapsto> []))"
proof -
  have n: "\<forall>x\<in>set (nodes file_opts). \<not> matches ''Missing'' x"
    using nodes_file_opts_missing by (simp add: filter_empty_conv)
  have "main env_missing fs_opts = (Returned, fs_opts(''types_missing.go'' \<mapsto> []))"
  proof (rule C4_no_match_returns_normally [where name = "''Missing''" and b = src_opts
        and f = file_opts])
    show "2 \<le> length (Args env_missing)" by (simp add: env_missing_def env_opts_def)
    show "''Missing'' = Args env_missing ! 1" by (simp add: env_missing_def env_opts_def)
    show "fs_opts (GOFILE env_missing) = Some src_opts"
      by (simp add: env_missing_def env_opts_def fs_opts_def)
    show "ParseFile env_missing src_opts = Some file_opts"
      by (simp add: env_missing_def env_opts_def)
    show "''types_missing.go'' = outName (GOFILE env_missing) ''Missing''"
      by (simp add: env_missing_def env_opts_def outName_types_missing)
    show "Create_ok env_missing ''types_missing.go''"
      by (simp add: env_missing_def env_opts_def)
    show "\<forall>x\<in>set (nodes file_opts). \<not> matches ''Missing'' x" by (rule n)
  qed
  with nodes_file_opts_missing show ?thesis by blast
qed







end
